theory Spec2Isabelle
  imports Main
begin

section \<open>Strings: \<open>split('\n')\<close> and \<open>join('\n')\<close>\<close>

text \<open>
  JavaScript strings are modelled as \<open>string\<close> (a list of characters). The two string
  operations the sources use are \<open>String.prototype.split\<close> with a one-character separator
  and \<open>Array.prototype.join\<close>. \<open>''''.split('\n')\<close> is the one-element array \<open>['''']\<close>, and
  a text ending in the separator yields a trailing empty segment; \<open>[].join('\n')\<close> is the
  empty string.
\<close>

definition NL :: char where
  "NL = CHR 0x0A"

fun split :: "char \<Rightarrow> string \<Rightarrow> string list" where
  "split sep [] = [[]]"
| "split sep (c # cs) =
     (if c = sep then [] # split sep cs
      else (case split sep cs of
              [] \<Rightarrow> [[c]]
            | l # ls \<Rightarrow> (c # l) # ls))"

fun join :: "char \<Rightarrow> string list \<Rightarrow> string" where
  "join sep [] = []"
| "join sep [x] = x"
| "join sep (x # y # ys) = x @ sep # join sep (y # ys)"

section \<open>Errors and promises\<close>

text \<open>
  A JavaScript error object is modelled by its class and its message. \<open>SystemError\<close>
  stands for the errors Node's \<open>fs\<close> functions raise (their message is the payload).
  \<open>errorToString\<close> is what a template literal \<open>`${error}`\<close> renders.
\<close>

datatype error =
    Error string
  | ReferenceError string
  | SystemError string

fun errorToString :: "error \<Rightarrow> string" where
  "errorToString (Error m) = ''Error: '' @ m"
| "errorToString (ReferenceError m) = ''ReferenceError: '' @ m"
| "errorToString (SystemError m) = ''Error: '' @ m"

text \<open>
  What a call of one of the library's functions comes to: it throws synchronously
  (before any promise exists), or it returns a promise, which is rejected, resolved, or
  never settles (there is no timeout anywhere).
\<close>

datatype 'a outcome =
    Thrown error
  | Pending
  | Rejected error
  | Resolved 'a

section \<open>The transform registry: \<open>getListFilterFunction\<close>\<close>

text \<open>
  \<open>getListFilterFunction\<close> returns a function for one identifier and \<open>undefined\<close>
  (here \<open>None\<close>) for every other one.
\<close>

definition registeredUUID :: string where
  "registeredUUID = ''FBB430E8-3910-4761-9373-840FC3B43FF2''"

definition prefixDomains :: "string \<Rightarrow> string" where
  "prefixDomains input = join NL (map (\<lambda>line. ''||'' @ line) (drop 4 (split NL input)))"

definition getListFilterFunction :: "string \<Rightarrow> (string \<Rightarrow> string) option" where
  "getListFilterFunction uuid =
     (if uuid = registeredUUID then Some prefixDomains else None)"

text \<open>
  Lines 67 to 69 of \<open>getSingleListDataFromSingleURL\<close>: the body is passed through the
  filter when one was given (\<open>if (filter) body = filter(body)\<close>).
\<close>

fun applyFilter :: "(string \<Rightarrow> string) option \<Rightarrow> string \<Rightarrow> string" where
  "applyFilter None body = body"
| "applyFilter (Some f) body = f body"

text \<open>
  Decimal rendering of a number inside a template literal (\<open>`${response.statusCode}`\<close>).
\<close>

fun showNat :: "nat \<Rightarrow> string" where
  "showNat n =
     (if n < 10 then [''0123456789'' ! n]
      else showNat (n div 10) @ [''0123456789'' ! (n mod 10)])"

declare showNat.simps [simp del]

section \<open>Identifiers and their bindings\<close>

text \<open>
  Reading an identifier fails with a \<open>ReferenceError\<close> when no enclosing scope declares
  it, and also when it is declared with \<open>let\<close> or \<open>const\<close> but its declaration has not
  finished evaluating (the binding exists from the start of the block and is uninitialised
  until then). \<open>readBinding x b\<close> reads \<open>x\<close> whose binding, at the place of the read, is
  \<open>b\<close>: \<open>None\<close> when nothing declares \<open>x\<close>.
\<close>

datatype 'v binding = Uninitialised | Initialised 'v

fun readBinding :: "string \<Rightarrow> 'v binding option \<Rightarrow> error + 'v" where
  "readBinding x None = Inl (ReferenceError (x @ '' is not defined''))"
| "readBinding x (Some Uninitialised) =
     Inl (ReferenceError (''Cannot access '' @ [CHR 0x27] @ x @ [CHR 0x27] @ '' before initialization''))"
| "readBinding x (Some (Initialised v)) = Inr v"

section \<open>External collaborators\<close>

text \<open>
  The matching engine (\<open>adblock-rs\<close>), the network (\<open>request\<close>), the file system (\<open>fs\<close>)
  and the sanitizer (\<open>sanitizeABPInput\<close> of \<open>lib/filtering.js\<close>) are not part of the two
  source files. The sanitizer is a parameter \<open>sanitizeABPInput :: string \<Rightarrow> string\<close> of
  every function that calls it. A client records what the engine was given: the rule lines
  passed to the constructor and the buffer passed to \<open>deserialize\<close>, if any. What the
  engine answers to \<open>check\<close>, \<open>serialize\<close> and \<open>getParsingStats\<close> is a parameter too.
\<close>

datatype client = Client (rules: "string list") (snapshot: "string option")

definition Engine :: "string list \<Rightarrow> client" where
  "Engine rs = Client rs None"

fun deserialize :: "string \<Rightarrow> client \<Rightarrow> client" where
  "deserialize buf (Client rs s) = Client rs (Some buf)"

record engine =
  check :: "client \<Rightarrow> string \<Rightarrow> string \<Rightarrow> string \<Rightarrow> bool"
  serialize :: "client \<Rightarrow> string"
  getParsingStats :: "client \<Rightarrow> string"

text \<open>
  \<open>request.get(url, callback)\<close> calls back with a transport error, or with a response
  carrying a status code and a body.
\<close>

datatype response = TransportError string | Response nat string

type_synonym network = "string \<Rightarrow> response"

text \<open>
  The file system maps a path to the file's content; a path that is not mapped cannot be
  read, and reading it raises.
\<close>

type_synonym filesystem = "string \<rightharpoonup> string"

definition readFileSync :: "filesystem \<Rightarrow> string \<Rightarrow> error + string" where
  "readFileSync fs path =
     (case fs path of
        None \<Rightarrow> Inl (SystemError (''ENOENT: no such file or directory, open '' @ path))
      | Some content \<Rightarrow> Inr content)"

text \<open>An entry of a catalog of filter lists, and the catalogs \<open>adBlockLists\<close> would hold.\<close>

record descriptor =
  list_uuid :: string
  list_url :: string

record catalogs =
  regions :: "descriptor list"
  malware :: "descriptor list"

text \<open>
  An argument that is either one value or an array of them
  (\<open>x.constructor === Array\<close> tells them apart).
\<close>

datatype 'a one_or_many = One 'a | Many "'a list"

section \<open>\<open>lib/util.js\<close>\<close>

definition makeAdBlockClientFromString :: "string one_or_many \<Rightarrow> client outcome" where
  "makeAdBlockClientFromString filterRuleData =
     (let rules = (case filterRuleData of
                     Many parts \<Rightarrow> join NL parts
                   | One text \<Rightarrow> text)
      in Resolved (Engine (split NL rules)))"

definition makeAdBlockClientFromDATFile :: "filesystem \<Rightarrow> string \<Rightarrow> client outcome" where
  "makeAdBlockClientFromDATFile fs datFilePath =
     (case readFileSync fs datFilePath of
        Inl err \<Rightarrow> Rejected err
      | Inr data \<Rightarrow> Resolved (deserialize data (Engine [])))"

text \<open>
  \<open>getSingleListDataFromSingleURL\<close> always settles once the request has called back:
  \<open>Inl\<close> is the rejection, \<open>Inr\<close> the text the promise resolves with.
\<close>

definition getSingleListDataFromSingleURL ::
  "(string \<Rightarrow> string) \<Rightarrow> network \<Rightarrow> string \<Rightarrow> (string \<Rightarrow> string) option \<Rightarrow> error + string" where
  "getSingleListDataFromSingleURL sanitizeABPInput net listURL filter_fn =
     (case net listURL of
        TransportError err \<Rightarrow> Inl (Error (''Request error: '' @ err))
      | Response statusCode body \<Rightarrow>
          if statusCode \<noteq> 200
          then Inl (Error (''Error status code '' @ showNat statusCode
                           @ '' returned for URL: '' @ listURL))
          else Inr (sanitizeABPInput (applyFilter filter_fn body)))"

text \<open>
  \<open>Promise.all\<close>. The promises settle in some order in time: \<open>order\<close> lists the indices
  of the promises in the order in which they settle. A resolved value is stored in the
  slot of its index; the first rejection rejects the whole. When the list ends, the
  combined promise is resolved with the slots in index order if every slot is filled, and
  is still pending otherwise.
\<close>

fun settleAll :: "nat list \<Rightarrow> (error + 'a) list \<Rightarrow> 'a option list \<Rightarrow> error + 'a option list" where
  "settleAll [] ps slots = Inr slots"
| "settleAll (i # rest) ps slots =
     (if i < length ps
      then (case ps ! i of
              Inl e \<Rightarrow> Inl e
            | Inr v \<Rightarrow> settleAll rest ps (slots[i := Some v]))
      else settleAll rest ps slots)"

definition promiseAll :: "nat list \<Rightarrow> (error + 'a) list \<Rightarrow> 'a list outcome" where
  "promiseAll order ps =
     (case settleAll order ps (replicate (length ps) None) of
        Inl e \<Rightarrow> Rejected e
      | Inr slots \<Rightarrow>
          (case those slots of
             None \<Rightarrow> Pending
           | Some results \<Rightarrow> Resolved results))"

definition makeAdBlockClientFromListURL ::
  "(string \<Rightarrow> string) \<Rightarrow> network \<Rightarrow> nat list \<Rightarrow> string one_or_many
     \<Rightarrow> (string \<Rightarrow> string) option \<Rightarrow> client outcome" where
  "makeAdBlockClientFromListURL sanitizeABPInput net order listURL filter_fn =
     (case listURL of
        Many urls \<Rightarrow>
          (let requestPromises =
                 map (\<lambda>currentURL.
                        getSingleListDataFromSingleURL sanitizeABPInput net currentURL filter_fn)
                     urls
           in case promiseAll order requestPromises of
                Resolved results \<Rightarrow>
                  (let body = join NL results;
                       body = sanitizeABPInput body
                   in makeAdBlockClientFromString (One body))
              | Rejected error \<Rightarrow>
                  Rejected (Error (''getSingleListDataFromSingleURL error: '' @ errorToString error))
              | Thrown error \<Rightarrow> Thrown error
              | Pending \<Rightarrow> Pending)
      | One singleURL \<Rightarrow>
          (case getSingleListDataFromSingleURL sanitizeABPInput net singleURL filter_fn of
             Inr listData \<Rightarrow>
               (let body = sanitizeABPInput listData
                in makeAdBlockClientFromString (One body))
           | Inl error \<Rightarrow>
               Rejected (Error (''getSingleListDataFromSingleURL error: '' @ errorToString error))))"

text \<open>
  \<open>makeAdBlockClientFromListUUID\<close>. Line 128 declares \<open>list\<close> with \<open>let\<close> and reads
  \<open>list\<close> inside the declaration's own initialiser (\<open>new list("default")\<close>), where the
  binding is uninitialised. Lines 130 and 133 read \<open>adBlockLists\<close>, which nothing in the
  module declares (the module imports \<open>lists\<close>). An exception in the body leaves the
  function before it returns a promise.
\<close>

definition findList :: "string \<Rightarrow> descriptor list \<Rightarrow> descriptor option" where
  "findList uuid ls = find (\<lambda>l. list_uuid l = uuid) ls"

definition makeAdBlockClientFromListUUID ::
  "(string \<Rightarrow> string) \<Rightarrow> network \<Rightarrow> nat list \<Rightarrow> string \<Rightarrow> client outcome" where
  "makeAdBlockClientFromListUUID sanitizeABPInput net order uuid =
     (case readBinding ''list'' (Some (Uninitialised :: (string \<Rightarrow> descriptor list) binding)) of
        Inl e \<Rightarrow> Thrown e
      | Inr list_ctor \<Rightarrow>
          (case (case findList uuid (list_ctor ''default'') of
                   Some l \<Rightarrow> Inr (Some l)
                 | None \<Rightarrow>
                     (case readBinding ''adBlockLists'' (None :: catalogs binding option) of
                        Inl e \<Rightarrow> Inl e
                      | Inr adBlockLists \<Rightarrow>
                          (case findList uuid (regions adBlockLists) of
                             Some l \<Rightarrow> Inr (Some l)
                           | None \<Rightarrow> Inr (findList uuid (malware adBlockLists))))) of
             Inl e \<Rightarrow> Thrown e
           | Inr None \<Rightarrow> Rejected (Error (''No list found for UUID '' @ uuid))
           | Inr (Some l) \<Rightarrow>
               makeAdBlockClientFromListURL sanitizeABPInput net order
                 (One (list_url l)) (getListFilterFunction uuid)))"

text \<open>
  \<open>makeAdBlockClientFromFilePath\<close>. \<open>readFileSync\<close> runs inside the promise's executor,
  so an exception it raises rejects the promise. The files of an array are read in order,
  the first unreadable one raising.
\<close>

fun readAll :: "filesystem \<Rightarrow> string list \<Rightarrow> error + string list" where
  "readAll fs [] = Inr []"
| "readAll fs (p # ps) =
     (case readFileSync fs p of
        Inl e \<Rightarrow> Inl e
      | Inr content \<Rightarrow>
          (case readAll fs ps of
             Inl e \<Rightarrow> Inl e
           | Inr contents \<Rightarrow> Inr (content # contents)))"

definition makeAdBlockClientFromFilePath :: "filesystem \<Rightarrow> string one_or_many \<Rightarrow> client outcome" where
  "makeAdBlockClientFromFilePath fs filePath =
     (case filePath of
        Many paths \<Rightarrow>
          (case readAll fs paths of
             Inl e \<Rightarrow> Rejected e
           | Inr filterRuleData \<Rightarrow> makeAdBlockClientFromString (Many filterRuleData))
      | One path \<Rightarrow>
          (case readFileSync fs path of
             Inl e \<Rightarrow> Rejected e
           | Inr filterRuleData \<Rightarrow> makeAdBlockClientFromString (One filterRuleData)))"

definition readSiteList :: "filesystem \<Rightarrow> string \<Rightarrow> error + string list" where
  "readSiteList fs path =
     (case readFileSync fs path of
        Inl e \<Rightarrow> Inl e
      | Inr content \<Rightarrow> Inr (split NL content))"

section \<open>The command-line script\<close>

text \<open>
  The options as \<open>commander\<close> parsed them: an option that takes a value is \<open>undefined\<close>
  (\<open>None\<close>) when the flag is absent and the string that follows the flag otherwise;
  \<open>stats\<close> and \<open>cache\<close> are switches; \<open>filterOption\<close> defaults to \<open>image\<close>. A flag
  given without its value is not modelled.
\<close>

record commander =
  uuid :: "string option"
  dat :: "string option"
  filter_flag :: "string option"
  filterPath :: "string option"
  http :: "string option"
  host :: "string option"
  location :: "string option"
  "output" :: "string option"
  list_flag :: "string option"
  stats :: bool
  cache :: bool
  filterOption :: string

text \<open>The condition of an \<open>if\<close> on such a value: \<open>undefined\<close> and the empty string are falsy.\<close>

fun truthy :: "string option \<Rightarrow> bool" where
  "truthy None = False"
| "truthy (Some s) = (s \<noteq> [])"

text \<open>
  Lines 46 to 64: which constructor of a client the script calls, and on which value.
  \<open>None\<close> when the guard of line 46 fails and \<open>p\<close> stays the rejected usage promise.
  \<open>the\<close> is applied to truthy values only, which are strings.
\<close>

datatype source =
    CatalogIdentifier string
  | SnapshotFile string
  | RemoteList string
  | RawRules string
  | LocalFile string
  | DefaultCatalog

definition selectSource :: "commander \<Rightarrow> source option" where
  "selectSource c =
     (if (truthy (host c) \<and> (truthy (location c) \<or> truthy (list_flag c))) \<or> stats c
      then Some (if truthy (uuid c) then CatalogIdentifier (the (uuid c))
                 else if truthy (dat c) then SnapshotFile (the (dat c))
                 else if truthy (http c) then RemoteList (the (http c))
                 else if truthy (filter_flag c) then RawRules (the (filter_flag c))
                 else if truthy (filterPath c) then LocalFile (the (filterPath c))
                 else DefaultCatalog)
      else None)"

text \<open>
  The promise \<open>p\<close> after line 64. Four of the calls pass \<open>parseOptions\<close>, an identifier
  the script never declares: the arguments are evaluated before the call, so reading it
  throws at the top level of the script. \<open>lists_fn\<close> is \<open>lists\<close> of \<open>adblock-rs\<close>, which
  gives the catalog of a name.
\<close>

definition usage :: string where
  "usage = ''Usage: node check.js --location <location> --host <host> [--uuid <uuid>]''"

definition sourcePromise ::
  "(string \<Rightarrow> string) \<Rightarrow> network \<Rightarrow> nat list \<Rightarrow> filesystem
     \<Rightarrow> (string \<Rightarrow> descriptor list) \<Rightarrow> commander \<Rightarrow> client outcome" where
  "sourcePromise sanitizeABPInput net order fs lists_fn c =
     (case selectSource c of
        None \<Rightarrow> Rejected (Error usage)
      | Some (CatalogIdentifier u) \<Rightarrow>
          (case readBinding ''parseOptions'' (None :: unit binding option) of
             Inl e \<Rightarrow> Thrown e
           | Inr parseOptions \<Rightarrow> makeAdBlockClientFromListUUID sanitizeABPInput net order u)
      | Some (SnapshotFile d) \<Rightarrow> makeAdBlockClientFromDATFile fs d
      | Some (RemoteList h) \<Rightarrow>
          (case readBinding ''parseOptions'' (None :: unit binding option) of
             Inl e \<Rightarrow> Thrown e
           | Inr parseOptions \<Rightarrow>
               makeAdBlockClientFromListURL sanitizeABPInput net order (One h) None)
      | Some (RawRules f) \<Rightarrow>
          (case readBinding ''parseOptions'' (None :: unit binding option) of
             Inl e \<Rightarrow> Thrown e
           | Inr parseOptions \<Rightarrow> makeAdBlockClientFromString (One f))
      | Some (LocalFile p) \<Rightarrow>
          (case readBinding ''parseOptions'' (None :: unit binding option) of
             Inl e \<Rightarrow> Thrown e
           | Inr parseOptions \<Rightarrow> makeAdBlockClientFromFilePath fs (One p))
      | Some DefaultCatalog \<Rightarrow>
          (let defaultLists = map list_url (lists_fn ''default'')
           in makeAdBlockClientFromListURL sanitizeABPInput net order (Many defaultLists) None))"

text \<open>
  What the handler of lines 66 to 95 does, as the sequence of its effects: a line on the
  console, a call of the client's \<open>check\<close> with its three arguments in order, the call of
  \<open>writeFileSync\<close> with the path and the buffer. The lines the library prints while the
  client is built, and the timer, are left out.
\<close>

datatype event =
    ConsoleLog "string list"
  | LogError error
  | CheckCall string string string
  | WriteFileSync string string

fun showBool :: "bool \<Rightarrow> string" where
  "showBool True = ''true''"
| "showBool False = ''false''"

record tally =
  matchCount :: nat
  skipCount :: nat
  trace :: "event list"

text \<open>
  The body of the \<open>forEach\<close> of lines 82 to 88 and the loop over the site list. The guard
  of line 46 lets the handler reach the queries only with a host that is a string.
\<close>

definition batchStep :: "engine \<Rightarrow> client \<Rightarrow> commander \<Rightarrow> tally \<Rightarrow> string \<Rightarrow> tally" where
  "batchStep eng adBlockClient c t site =
     (let t' = t\<lparr>trace := trace t @ [CheckCall site (filterOption c) (the (host c))]\<rparr>
      in if check eng adBlockClient site (filterOption c) (the (host c))
         then t'\<lparr>matchCount := matchCount t' + 1\<rparr>
         else t'\<lparr>skipCount := skipCount t' + 1\<rparr>)"

definition batchLoop :: "engine \<Rightarrow> client \<Rightarrow> commander \<Rightarrow> string list \<Rightarrow> tally" where
  "batchLoop eng adBlockClient c siteList =
     foldl (batchStep eng adBlockClient c)
       \<lparr>matchCount = 0, skipCount = 0, trace = []\<rparr> siteList"

definition singleQuery :: "engine \<Rightarrow> client \<Rightarrow> commander \<Rightarrow> event list" where
  "singleQuery eng adBlockClient c =
     [ConsoleLog [''params:'', the (location c), filterOption c, the (host c)],
      CheckCall (the (location c)) (''https://'' @ the (host c)) (filterOption c),
      ConsoleLog [''Matches: '',
        showBool (check eng adBlockClient
                    (the (location c)) (''https://'' @ the (host c)) (filterOption c))]]"

definition batchQuery :: "engine \<Rightarrow> filesystem \<Rightarrow> client \<Rightarrow> commander \<Rightarrow> error + event list" where
  "batchQuery eng fs adBlockClient c =
     (case readSiteList fs (the (list_flag c)) of
        Inl e \<Rightarrow> Inl e
      | Inr siteList \<Rightarrow>
          (let t = batchLoop eng adBlockClient c siteList
           in Inr (trace t @ [ConsoleLog [''Matching:'', showNat (matchCount t)],
                              ConsoleLog [''Skipped:'', showNat (skipCount t)]])))"

text \<open>
  The handler: an exception raised inside it (the site list cannot be read) reaches the
  final \<open>catch\<close>, which prints it.
\<close>

definition resultHandler :: "engine \<Rightarrow> filesystem \<Rightarrow> commander \<Rightarrow> client \<Rightarrow> event list" where
  "resultHandler eng fs c adBlockClient =
     (if stats c
      then [ConsoleLog [''Parsing stats:'', getParsingStats eng adBlockClient]]
      else (case (if truthy (location c)
                  then Inr (singleQuery eng adBlockClient c)
                  else batchQuery eng fs adBlockClient c) of
              Inl e \<Rightarrow> [LogError e]
            | Inr queried \<Rightarrow>
                queried @ (if truthy (output c)
                           then [WriteFileSync (the (output c)) (serialize eng adBlockClient)]
                           else [])))"

text \<open>
  The whole script: \<open>Inl\<close> when an exception escapes at the top level, before line 66
  attaches the handler.
\<close>

definition script ::
  "(string \<Rightarrow> string) \<Rightarrow> network \<Rightarrow> nat list \<Rightarrow> filesystem
     \<Rightarrow> (string \<Rightarrow> descriptor list) \<Rightarrow> engine \<Rightarrow> commander \<Rightarrow> error + event list" where
  "script sanitizeABPInput net order fs lists_fn eng c =
     (case sourcePromise sanitizeABPInput net order fs lists_fn c of
        Thrown e \<Rightarrow> Inl e
      | Pending \<Rightarrow> Inr []
      | Rejected e \<Rightarrow> Inr [LogError e]
      | Resolved adBlockClient \<Rightarrow> Inr (resultHandler eng fs c adBlockClient))"

section \<open>Concrete inputs\<close>

text \<open>
  Inputs at which the functions are evaluated below. \<open>dropEmptyLines\<close> is a sanitizer to
  run the functions with (it removes the empty lines of a text); the library's own
  sanitizer stays a parameter of every general statement.
\<close>

definition dropEmptyLines :: "string \<Rightarrow> string" where
  "dropEmptyLines text = join NL (filter (\<lambda>line. line \<noteq> []) (split NL text))"

definition sampleNet :: network where
  "sampleNet address =
     (if address = ''https://lists.example/a.txt'' then Response 200 ''||a.example^''
      else if address = ''https://lists.example/b.txt'' then Response 200 (''||b.example^'' @ [NL])
      else if address = ''https://lists.example/c.txt'' then Response 200 ''||c.example^''
      else if address = ''https://lists.example/gone.txt'' then Response 404 ''Not Found''
      else TransportError ''Error: getaddrinfo ENOTFOUND'')"

definition sampleFiles :: filesystem where
  "sampleFiles path =
     (if path = ''rules.txt'' then Some (''||a.example^'' @ [NL, NL] @ ''||b.example^'')
      else if path = ''sites.txt''
        then Some (''https://a.example/x.js'' @ [NL] @ ''https://n.example/y.js'' @ [NL])
      else if path = ''in.dat'' then Some ''snapshot''
      else None)"

definition sampleEngine :: engine where
  "sampleEngine =
     \<lparr>check = (\<lambda>cl target origin hint. target \<in> set (rules cl)),
      serialize = (\<lambda>cl. join NL (rules cl)),
      getParsingStats = (\<lambda>cl. showNat (length (rules cl)))\<rparr>"

definition sampleLists :: "string \<Rightarrow> descriptor list" where
  "sampleLists name =
     (if name = ''default''
      then [\<lparr>list_uuid = ''67F880F5-7602-4042-8A3D-01481FD7437A'',
             list_url = ''https://lists.example/a.txt''\<rparr>]
      else [])"

definition noFlags :: commander where
  "noFlags =
     \<lparr>uuid = None, dat = None, filter_flag = None, filterPath = None, http = None,
      host = None, location = None, output = None, list_flag = None,
      stats = False, cache = False, filterOption = ''image''\<rparr>"

definition batchRun :: commander where
  "batchRun = noFlags\<lparr>dat := Some ''in.dat'', host := Some ''www.cnet.com'',
                       list_flag := Some ''sites.txt'', output := Some ''out.dat''\<rparr>"

definition statsRun :: commander where
  "statsRun = noFlags\<lparr>dat := Some ''in.dat'', stats := True, output := Some ''out.dat''\<rparr>"

definition allSourcesRun :: commander where
  "allSourcesRun = noFlags\<lparr>uuid := Some ''67F880F5-7602-4042-8A3D-01481FD7437A'',
                            dat := Some ''in.dat'', filter_flag := Some ''||a.example^'',
                            filterPath := Some ''rules.txt'',
                            http := Some ''https://lists.example/a.txt'',
                            host := Some ''www.cnet.com'',
                            location := Some ''https://a.example/x.js''\<rparr>"

section \<open>Facts about \<open>split\<close> and \<open>join\<close>\<close>

lemma split_not_Nil: "split sep s \<noteq> []"
  by (induction s) (auto split: list.splits)

lemma join_split: "join sep (split sep s) = s"
proof (induction s)
  case Nil
  show ?case by simp
next
  case (Cons c cs)
  obtain l ls where sp: "split sep cs = l # ls"
    using split_not_Nil [of sep cs] by (cases "split sep cs") auto
  show ?case
  proof (cases "c = sep")
    case True
    with Cons sp show ?thesis by simp
  next
    case False
    with Cons sp show ?thesis by (cases ls) auto
  qed
qed

lemma split_line: "sep \<notin> set l \<Longrightarrow> split sep l = [l]"
  by (induction l) auto

lemma split_line_sep:
  "sep \<notin> set l \<Longrightarrow> split sep (l @ sep # rest) = l # split sep rest"
  by (induction l) auto

lemma split_join:
  "ls \<noteq> [] \<Longrightarrow> \<forall>l \<in> set ls. sep \<notin> set l \<Longrightarrow> split sep (join sep ls) = ls"
proof (induction sep ls rule: join.induct)
  case (1 sep)
  then show ?case by simp
next
  case (2 sep x)
  then show ?case by (simp add: split_line)
next
  case (3 sep x y ys)
  then show ?case by (simp add: split_line_sep)
qed

lemma length_split: "length (split sep s) = Suc (length (filter (\<lambda>c. c = sep) s))"
proof (induction s)
  case Nil
  show ?case by simp
next
  case (Cons c cs)
  obtain l ls where sp: "split sep cs = l # ls"
    using split_not_Nil [of sep cs] by (cases "split sep cs") auto
  with Cons show ?case by auto
qed

section \<open>C8: the registered transform\<close>

text \<open>
  C8. For the registered identifier the registry yields a transform which, on a text made
  of four header lines followed by the lines \<open>d1\<close>, \<open>d2\<close>, \<open>d3\<close> (joined by newline, no
  line containing a newline), drops the four header lines, prefixes every remaining line
  with \<open>||\<close> and joins them again with newline, giving \<open>||d1\n||d2\n||d3\<close>. For every
  other identifier the registry yields \<open>undefined\<close>, and the fetch then leaves the body
  as it is (identity behaviour).
\<close>

theorem registered_transform:
  assumes "\<forall>l \<in> set [h1, h2, h3, h4, d1, d2, d3]. NL \<notin> set l"
  shows "(\<exists>f. getListFilterFunction registeredUUID = Some f
            \<and> f (join NL [h1, h2, h3, h4, d1, d2, d3])
                = ''||'' @ d1 @ [NL] @ ''||'' @ d2 @ [NL] @ ''||'' @ d3)
         \<and> (\<forall>uuid body. uuid \<noteq> registeredUUID \<longrightarrow>
               getListFilterFunction uuid = None
               \<and> applyFilter (getListFilterFunction uuid) body = body)"
proof -
  have "split NL (join NL [h1, h2, h3, h4, d1, d2, d3]) = [h1, h2, h3, h4, d1, d2, d3]"
    using assms by (intro split_join) simp_all
  then have "prefixDomains (join NL [h1, h2, h3, h4, d1, d2, d3])
      = ''||'' @ d1 @ [NL] @ ''||'' @ d2 @ [NL] @ ''||'' @ d3"
    by (simp add: prefixDomains_def)
  then show ?thesis
    by (simp add: getListFilterFunction_def)
qed

theorem registered_transform_witness:
  "list_all (\<lambda>l. NL \<notin> set l)
     [''! Title'', ''! Version'', ''! Expires'', ''!'', ''a.com'', ''b.org'', ''c.net'']
   \<and> (\<exists>f. getListFilterFunction registeredUUID = Some f
         \<and> f (join NL [''! Title'', ''! Version'', ''! Expires'', ''!'', ''a.com'', ''b.org'', ''c.net''])
             = ''||a.com'' @ [NL] @ ''||b.org'' @ [NL] @ ''||c.net'')
   \<and> getListFilterFunction ''03F91310-9244-40FA-BCF6-DA31B832F34D'' = None
   \<and> applyFilter (getListFilterFunction ''03F91310-9244-40FA-BCF6-DA31B832F34D'') ''x'' = ''x''"
proof -
  have h: "\<forall>l \<in> set [''! Title'', ''! Version'', ''! Expires'', ''!'', ''a.com'', ''b.org'', ''c.net''].
       NL \<notin> set l"
    by (simp add: NL_def)
  have "''03F91310-9244-40FA-BCF6-DA31B832F34D'' \<noteq> registeredUUID"
    by (simp add: registeredUUID_def)
  with h registered_transform [OF h] show ?thesis
    by (simp add: NL_def)
qed

section \<open>\<open>Promise.all\<close>\<close>

lemma those_map_Some: "those (map Some xs) = Some xs"
  by (induction xs) simp_all

lemma settleAll_all_resolved:
  "length slots = length vs \<Longrightarrow>
   settleAll order (map Inr vs) slots
     = Inr (map (\<lambda>i. if i \<in> set order then Some (vs ! i) else slots ! i) [0..<length vs])"
proof (induction order arbitrary: slots)
  case Nil
  then show ?case by (auto intro: nth_equalityI)
next
  case (Cons i rest)
  show ?case
  proof (cases "i < length vs")
    case True
    have "settleAll (i # rest) (map Inr vs) slots
            = settleAll rest (map Inr vs) (slots[i := Some (vs ! i)])"
      using True by simp
    also have "\<dots> = Inr (map (\<lambda>j. if j \<in> set rest then Some (vs ! j)
                                  else slots[i := Some (vs ! i)] ! j) [0..<length vs])"
      using Cons.prems by (intro Cons.IH) simp
    also have "map (\<lambda>j. if j \<in> set rest then Some (vs ! j)
                         else slots[i := Some (vs ! i)] ! j) [0..<length vs]
             = map (\<lambda>j. if j \<in> set (i # rest) then Some (vs ! j) else slots ! j) [0..<length vs]"
      using Cons.prems by (auto simp: nth_list_update)
    finally show ?thesis .
  next
    case False
    have "settleAll (i # rest) (map Inr vs) slots = settleAll rest (map Inr vs) slots"
      using False by simp
    also have "\<dots> = Inr (map (\<lambda>j. if j \<in> set rest then Some (vs ! j) else slots ! j) [0..<length vs])"
      using Cons.prems by (intro Cons.IH)
    also have "map (\<lambda>j. if j \<in> set rest then Some (vs ! j) else slots ! j) [0..<length vs]
             = map (\<lambda>j. if j \<in> set (i # rest) then Some (vs ! j) else slots ! j) [0..<length vs]"
      using False by auto
    finally show ?thesis .
  qed
qed

lemma promiseAll_all_resolved:
  assumes "{0..<length vs} \<subseteq> set order"
  shows "promiseAll order (map Inr vs) = Resolved vs"
proof -
  have "map (\<lambda>i. if i \<in> set order then Some (vs ! i) else replicate (length vs) None ! i)
            [0..<length vs] = map Some vs"
    using assms by (intro nth_equalityI) auto
  then show ?thesis
    by (simp add: promiseAll_def settleAll_all_resolved those_map_Some)
qed

lemma settleAll_rejected:
  "i \<in> set order \<Longrightarrow> i < length ps \<Longrightarrow> ps ! i = Inl e \<Longrightarrow>
   \<exists>j e'. j < length ps \<and> ps ! j = Inl e' \<and> settleAll order ps slots = Inl e'"
proof (induction order arbitrary: slots)
  case Nil
  then show ?case by simp
next
  case (Cons k rest)
  show ?case
  proof (cases "k < length ps")
    case False
    with Cons have "i \<in> set rest" by auto
    from Cons.IH [OF this Cons.prems(2,3)] False show ?thesis by simp
  next
    case True
    show ?thesis
    proof (cases "ps ! k")
      case (Inl e')
      with True show ?thesis by auto
    next
      case (Inr v)
      with Cons.prems have "i \<in> set rest" by auto
      from Cons.IH [OF this Cons.prems(2,3)] True Inr show ?thesis by simp
    qed
  qed
qed

lemma promiseAll_rejected:
  assumes "i \<in> set order" "i < length ps" "ps ! i = Inl e"
  shows "\<exists>j e'. j < length ps \<and> ps ! j = Inl e' \<and> promiseAll order ps = Rejected e'"
proof -
  obtain j e' where "j < length ps" "ps ! j = Inl e'"
      "settleAll order ps (replicate (length ps) None) = Inl e'"
    using settleAll_rejected [OF assms] by blast
  then show ?thesis by (auto simp: promiseAll_def)
qed

section \<open>Remote lists\<close>

lemma fetch_ok:
  "net u = Response 200 body \<Longrightarrow>
   getSingleListDataFromSingleURL sanitize net u f = Inr (sanitize (applyFilter f body))"
  by (simp add: getSingleListDataFromSingleURL_def)

lemma fetches_ok:
  "map net urls = map (Response 200) bodies \<Longrightarrow>
   map (\<lambda>u. getSingleListDataFromSingleURL sanitize net u f) urls
     = map Inr (map (\<lambda>b. sanitize (applyFilter f b)) bodies)"
proof (induction urls arbitrary: bodies)
  case Nil
  then show ?case by simp
next
  case (Cons u us)
  then obtain b bs where "bodies = b # bs" "net u = Response 200 b"
      "map net us = map (Response 200) bs"
    by (cases bodies) auto
  with Cons.IH [of bs] show ?case by (simp add: fetch_ok)
qed

lemma aggregate_all_ok:
  assumes "map net urls = map (Response 200) bodies"
      and "{0..<length urls} \<subseteq> set order"
  shows "makeAdBlockClientFromListURL sanitize net order (Many urls) f
         = Resolved (Engine (split NL
             (sanitize (join NL (map (\<lambda>b. sanitize (applyFilter f b)) bodies)))))"
proof -
  have len: "length bodies = length urls"
    using assms(1) by (metis length_map)
  have "promiseAll order (map Inr (map (\<lambda>b. sanitize (applyFilter f b)) bodies))
          = Resolved (map (\<lambda>b. sanitize (applyFilter f b)) bodies)"
    using assms(2) len by (intro promiseAll_all_resolved) simp
  then show ?thesis
    by (simp add: makeAdBlockClientFromListURL_def fetches_ok [OF assms(1)]
        makeAdBlockClientFromString_def)
qed

lemma fetch_failed:
  assumes "(\<exists>err. net u = TransportError err) \<or> (\<exists>code body. net u = Response code body \<and> code \<noteq> 200)"
  shows "\<exists>e. getSingleListDataFromSingleURL sanitize net u f = Inl e"
  using assms by (auto simp: getSingleListDataFromSingleURL_def)

lemma fetch_rejection:
  assumes "getSingleListDataFromSingleURL sanitize net u f = Inl e"
  shows "(\<exists>err. net u = TransportError err \<and> e = Error (''Request error: '' @ err))
       \<or> (\<exists>code body. net u = Response code body \<and> code \<noteq> 200
            \<and> e = Error (''Error status code '' @ showNat code @ '' returned for URL: '' @ u))"
  using assms
  by (auto simp: getSingleListDataFromSingleURL_def split: response.splits if_splits)

text \<open>
  C1. Three remote parts whose fetches answer with status 200 and the texts \<open>a\<close>, \<open>b\<close>,
  \<open>c\<close>: whatever the order in which the three fetches complete (every one of them
  completing), the client is built from
  \<open>sanitize(sanitize(a) + "\n" + sanitize(b) + "\n" + sanitize(c))\<close>, the parts in the
  order of the input, each sanitized once and the joined text sanitized again.
\<close>

theorem aggregation_three_parts:
  assumes "net uA = Response 200 a" and "net uB = Response 200 b" and "net uC = Response 200 c"
      and "{0, 1, 2} \<subseteq> set order"
  shows "makeAdBlockClientFromListURL sanitize net order (Many [uA, uB, uC]) None
         = Resolved (Engine (split NL
             (sanitize (sanitize a @ [NL] @ sanitize b @ [NL] @ sanitize c))))"
proof -
  have m: "map net [uA, uB, uC] = map (Response 200) [a, b, c]"
    using assms(1-3) by simp
  have o: "{0..<length [uA, uB, uC]} \<subseteq> set order"
    using assms(4) by (auto simp: less_Suc_eq numeral_2_eq_2)
  show ?thesis
    using aggregate_all_ok [OF m o, of sanitize None] by simp
qed

theorem aggregation_three_parts_witness:
  "sampleNet ''https://lists.example/a.txt'' = Response 200 ''||a.example^''
   \<and> sampleNet ''https://lists.example/b.txt'' = Response 200 (''||b.example^'' @ [NL])
   \<and> sampleNet ''https://lists.example/c.txt'' = Response 200 ''||c.example^''
   \<and> {0, 1, 2} \<subseteq> set [2, 0, 1 :: nat]
   \<and> makeAdBlockClientFromListURL dropEmptyLines sampleNet [2, 0, 1]
        (Many [''https://lists.example/a.txt'', ''https://lists.example/b.txt'',
               ''https://lists.example/c.txt'']) None
       = Resolved (Engine [''||a.example^'', ''||b.example^'', ''||c.example^''])"
proof -
  have a: "sampleNet ''https://lists.example/a.txt'' = Response 200 ''||a.example^''"
    by (simp add: sampleNet_def)
  have b: "sampleNet ''https://lists.example/b.txt'' = Response 200 (''||b.example^'' @ [NL])"
    by (simp add: sampleNet_def)
  have c: "sampleNet ''https://lists.example/c.txt'' = Response 200 ''||c.example^''"
    by (simp add: sampleNet_def)
  have o: "{0, 1, 2} \<subseteq> set [2, 0, 1 :: nat]" by simp
  have "split NL (dropEmptyLines (dropEmptyLines ''||a.example^'' @ [NL]
          @ dropEmptyLines (''||b.example^'' @ [NL]) @ [NL] @ dropEmptyLines ''||c.example^''))
        = [''||a.example^'', ''||b.example^'', ''||c.example^'']"
    by (simp add: dropEmptyLines_def NL_def)
  with aggregation_three_parts [where net = sampleNet and sanitize = dropEmptyLines
      and uA = "''https://lists.example/a.txt''" and uB = "''https://lists.example/b.txt''"
      and uC = "''https://lists.example/c.txt''" and order = "[2, 0, 1]", OF a b c o] a b c o
  show ?thesis by simp
qed

text \<open>
  C7. Several remote parts: when a fetch that calls back had a transport error or a
  status code other than 200 (every non-success code is one), the whole aggregation is
  rejected, with an error whose message carries the message of a failed fetch (the
  request error, or the status code and the URL); no client is built, whatever the other
  fetches returned.
\<close>

theorem aggregation_fails_when_a_fetch_fails:
  assumes "i < length urls" and "i \<in> set order"
      and "(\<exists>err. net (urls ! i) = TransportError err)
         \<or> (\<exists>code body. net (urls ! i) = Response code body \<and> code \<noteq> 200)"
  shows "\<exists>j < length urls. \<exists>e.
           ((\<exists>err. net (urls ! j) = TransportError err \<and> e = Error (''Request error: '' @ err))
            \<or> (\<exists>code body. net (urls ! j) = Response code body \<and> code \<noteq> 200
                 \<and> e = Error (''Error status code '' @ showNat code
                               @ '' returned for URL: '' @ urls ! j)))
           \<and> makeAdBlockClientFromListURL sanitize net order (Many urls) f
               = Rejected (Error (''getSingleListDataFromSingleURL error: '' @ errorToString e))"
proof -
  let ?ps = "map (\<lambda>u. getSingleListDataFromSingleURL sanitize net u f) urls"
  obtain e0 where "getSingleListDataFromSingleURL sanitize net (urls ! i) f = Inl e0"
    using fetch_failed [where net = net and u = "urls ! i", OF assms(3)] by blast
  with assms(1) have "?ps ! i = Inl e0" by simp
  with assms(1,2) obtain j e where j: "j < length ?ps" and pj: "?ps ! j = Inl e"
      and all: "promiseAll order ?ps = Rejected e"
    using promiseAll_rejected [of i order ?ps e0] by auto
  from j pj have "getSingleListDataFromSingleURL sanitize net (urls ! j) f = Inl e" by simp
  note fetch_rejection [OF this]
  moreover have "makeAdBlockClientFromListURL sanitize net order (Many urls) f
      = Rejected (Error (''getSingleListDataFromSingleURL error: '' @ errorToString e))"
    using all by (simp add: makeAdBlockClientFromListURL_def)
  ultimately show ?thesis using j by auto
qed

theorem aggregation_fails_when_a_fetch_fails_witness:
  "1 < length [''https://lists.example/a.txt'', ''https://lists.example/gone.txt'']
   \<and> 1 \<in> set [0, 1 :: nat]
   \<and> sampleNet ([''https://lists.example/a.txt'', ''https://lists.example/gone.txt''] ! 1)
       = Response 404 ''Not Found''
   \<and> makeAdBlockClientFromListURL dropEmptyLines sampleNet [0, 1]
        (Many [''https://lists.example/a.txt'', ''https://lists.example/gone.txt'']) None
       = Rejected (Error (''getSingleListDataFromSingleURL error: ''
           @ ''Error: Error status code 404 returned for URL: https://lists.example/gone.txt''))"
proof -
  let ?urls = "[''https://lists.example/a.txt'', ''https://lists.example/gone.txt'']"
  have g: "sampleNet (?urls ! 1) = Response 404 ''Not Found''"
    by (simp add: sampleNet_def)
  have a: "sampleNet (?urls ! 0) = Response 200 ''||a.example^''"
    by (simp add: sampleNet_def)
  have l: "1 < length ?urls" by simp
  have m: "1 \<in> set [0, 1 :: nat]" by simp
  have f: "(\<exists>err. sampleNet (?urls ! 1) = TransportError err)
         \<or> (\<exists>code body. sampleNet (?urls ! 1) = Response code body \<and> code \<noteq> 200)"
    using g by simp
  obtain j e where j: "j < length ?urls"
    and e: "(\<exists>err. sampleNet (?urls ! j) = TransportError err \<and> e = Error (''Request error: '' @ err))
            \<or> (\<exists>code body. sampleNet (?urls ! j) = Response code body \<and> code \<noteq> 200
                 \<and> e = Error (''Error status code '' @ showNat code
                               @ '' returned for URL: '' @ ?urls ! j))"
    and r: "makeAdBlockClientFromListURL dropEmptyLines sampleNet [0, 1] (Many ?urls) None
               = Rejected (Error (''getSingleListDataFromSingleURL error: '' @ errorToString e))"
    using aggregation_fails_when_a_fetch_fails [where net = sampleNet and urls = ?urls
        and i = 1 and order = "[0, 1]" and sanitize = dropEmptyLines and f = None, OF l m f]
    by blast
  from j have "j = 0 \<or> j = 1" by auto
  then have "j = 1"
  proof
    assume "j = 0"
    with e a show ?thesis by simp
  qed
  have s: "showNat 404 = ''404''" by (simp add: showNat.simps)
  from e \<open>j = 1\<close> g s
  have "e = Error (''Error status code 404 returned for URL: https://lists.example/gone.txt'')"
    by simp
  with r l m g show ?thesis by simp
qed



section \<open>Catalog lookup\<close>

text \<open>
  C2. What \<open>makeAdBlockClientFromListUUID\<close> does for every identifier and every state of
  the catalogs: it throws a \<open>ReferenceError\<close> at its first statement, before any catalog
  is searched. No descriptor is returned, and the rejection for an unknown identifier is
  never reached.
\<close>

theorem list_uuid_lookup_throws:
  "makeAdBlockClientFromListUUID sanitize net order u
     = Thrown (ReferenceError (''Cannot access '' @ [CHR 0x27] @ ''list'' @ [CHR 0x27]
                               @ '' before initialization''))"
  by (simp add: makeAdBlockClientFromListUUID_def)

section \<open>Local files\<close>

lemma readAll_ok:
  "map fs paths = map Some contents \<Longrightarrow> readAll fs paths = Inr contents"
proof (induction paths arbitrary: contents)
  case Nil
  then show ?case by simp
next
  case (Cons p ps)
  then obtain x xs where "contents = x # xs" "fs p = Some x" "map fs ps = map Some xs"
    by (cases contents) auto
  with Cons.IH [of xs] show ?case by (simp add: readFileSync_def)
qed

text \<open>
  C5, as the claim states it, fails: the content of a local file reaches the engine
  without passing through a sanitizer. The file \<open>rules.txt\<close> holds an empty line, which
  the engine receives, while the sanitized text has none.
\<close>

theorem local_files_sanitizer_counterexample:
  "makeAdBlockClientFromFilePath sampleFiles (One ''rules.txt'')
     = Resolved (Engine [''||a.example^'', [], ''||b.example^''])
   \<and> makeAdBlockClientFromString
         (One (dropEmptyLines (''||a.example^'' @ [NL, NL] @ ''||b.example^'')))
     = Resolved (Engine [''||a.example^'', ''||b.example^''])
   \<and> makeAdBlockClientFromFilePath sampleFiles (One ''rules.txt'')
     \<noteq> makeAdBlockClientFromString
         (One (dropEmptyLines (''||a.example^'' @ [NL, NL] @ ''||b.example^'')))"
proof -
  have 1: "makeAdBlockClientFromFilePath sampleFiles (One ''rules.txt'')
             = Resolved (Engine [''||a.example^'', [], ''||b.example^''])"
    by (simp add: makeAdBlockClientFromFilePath_def readFileSync_def sampleFiles_def
        makeAdBlockClientFromString_def NL_def)
  have 2: "makeAdBlockClientFromString
             (One (dropEmptyLines (''||a.example^'' @ [NL, NL] @ ''||b.example^'')))
           = Resolved (Engine [''||a.example^'', ''||b.example^''])"
    by (simp add: makeAdBlockClientFromString_def dropEmptyLines_def NL_def)
  from 1 2 show ?thesis by (simp add: Engine_def)
qed

text \<open>
  C5, amended. Each local file is read synchronously as text; the content of a single
  file, or the contents of several files joined with newline in the order of the paths,
  is split on newline and handed to the engine as it was read. No transform and no
  sanitizer is applied on this path.
\<close>

theorem local_files_reach_engine_as_read:
  assumes "fs path = Some content"
      and "map fs paths = map Some contents"
  shows "makeAdBlockClientFromFilePath fs (One path) = Resolved (Engine (split NL content))
       \<and> makeAdBlockClientFromFilePath fs (Many paths)
           = Resolved (Engine (split NL (join NL contents)))"
  using assms
  by (simp add: makeAdBlockClientFromFilePath_def readFileSync_def readAll_ok
      makeAdBlockClientFromString_def)

theorem local_files_reach_engine_as_read_witness:
  "sampleFiles ''rules.txt'' = Some (''||a.example^'' @ [NL, NL] @ ''||b.example^'')
   \<and> map sampleFiles [''in.dat'', ''rules.txt'']
       = map Some [''snapshot'', ''||a.example^'' @ [NL, NL] @ ''||b.example^'']
   \<and> makeAdBlockClientFromFilePath sampleFiles (One ''rules.txt'')
       = Resolved (Engine [''||a.example^'', [], ''||b.example^''])
   \<and> makeAdBlockClientFromFilePath sampleFiles (Many [''in.dat'', ''rules.txt''])
       = Resolved (Engine [''snapshot'', ''||a.example^'', [], ''||b.example^''])"
proof -
  have a: "sampleFiles ''rules.txt'' = Some (''||a.example^'' @ [NL, NL] @ ''||b.example^'')"
    by (simp add: sampleFiles_def)
  have b: "map sampleFiles [''in.dat'', ''rules.txt'']
       = map Some [''snapshot'', ''||a.example^'' @ [NL, NL] @ ''||b.example^'']"
    by (simp add: sampleFiles_def)
  have s: "split NL (''||a.example^'' @ [NL, NL] @ ''||b.example^'')
             = [''||a.example^'', [], ''||b.example^'']"
    by (simp add: NL_def)
  have j: "split NL (join NL [''snapshot'', ''||a.example^'' @ [NL, NL] @ ''||b.example^''])
             = [''snapshot'', ''||a.example^'', [], ''||b.example^'']"
    by (simp add: NL_def)
  from local_files_reach_engine_as_read [where fs = sampleFiles and path = "''rules.txt''"
      and paths = "[''in.dat'', ''rules.txt'']", OF a b] a b s j
  show ?thesis by simp
qed

section \<open>Source selection\<close>

text \<open>
  C3. What the script does with the source flags once the guard of line 46 holds. The
  flags are tried in the order \<open>uuid\<close>, \<open>dat\<close>, \<open>http\<close>, \<open>filter\<close>, \<open>filterPath\<close>,
  the first truthy one deciding, whatever the flags after it are. For a catalog
  identifier, a remote URL, raw filter text and a local file path the call names
  \<open>parseOptions\<close>, which the script does not declare: the script ends there with a
  \<open>ReferenceError\<close> and the source is never used. A snapshot file is read, and with none
  of the flags the client is built from the URLs of the \<open>default\<close> catalog.
\<close>

theorem source_promise_by_precedence:
  assumes "(truthy (host c) \<and> (truthy (location c) \<or> truthy (list_flag c))) \<or> stats c"
  shows "(truthy (uuid c) \<longrightarrow>
            sourcePromise sanitize net order fs lists_fn c
              = Thrown (ReferenceError ''parseOptions is not defined'')
            \<and> script sanitize net order fs lists_fn eng c
              = Inl (ReferenceError ''parseOptions is not defined''))
       \<and> (\<not> truthy (uuid c) \<and> truthy (dat c) \<longrightarrow>
            sourcePromise sanitize net order fs lists_fn c
              = makeAdBlockClientFromDATFile fs (the (dat c)))
       \<and> (\<not> truthy (uuid c) \<and> \<not> truthy (dat c) \<and> truthy (http c) \<longrightarrow>
            sourcePromise sanitize net order fs lists_fn c
              = Thrown (ReferenceError ''parseOptions is not defined'')
            \<and> script sanitize net order fs lists_fn eng c
              = Inl (ReferenceError ''parseOptions is not defined''))
       \<and> (\<not> truthy (uuid c) \<and> \<not> truthy (dat c) \<and> \<not> truthy (http c)
            \<and> truthy (filter_flag c) \<longrightarrow>
            sourcePromise sanitize net order fs lists_fn c
              = Thrown (ReferenceError ''parseOptions is not defined'')
            \<and> script sanitize net order fs lists_fn eng c
              = Inl (ReferenceError ''parseOptions is not defined''))
       \<and> (\<not> truthy (uuid c) \<and> \<not> truthy (dat c) \<and> \<not> truthy (http c)
            \<and> \<not> truthy (filter_flag c) \<and> truthy (filterPath c) \<longrightarrow>
            sourcePromise sanitize net order fs lists_fn c
              = Thrown (ReferenceError ''parseOptions is not defined'')
            \<and> script sanitize net order fs lists_fn eng c
              = Inl (ReferenceError ''parseOptions is not defined''))
       \<and> (\<not> truthy (uuid c) \<and> \<not> truthy (dat c) \<and> \<not> truthy (http c)
            \<and> \<not> truthy (filter_flag c) \<and> \<not> truthy (filterPath c) \<longrightarrow>
            sourcePromise sanitize net order fs lists_fn c
              = makeAdBlockClientFromListURL sanitize net order
                  (Many (map list_url (lists_fn ''default''))) None)"
  using assms by (simp add: selectSource_def sourcePromise_def script_def)

theorem source_promise_by_precedence_witness:
  "script dropEmptyLines sampleNet [0] sampleFiles sampleLists sampleEngine allSourcesRun
     = Inl (ReferenceError ''parseOptions is not defined'')
   \<and> sourcePromise dropEmptyLines sampleNet [0] sampleFiles sampleLists
         (allSourcesRun\<lparr>uuid := None\<rparr>)
       = Resolved (Client [] (Some ''snapshot''))
   \<and> script dropEmptyLines sampleNet [0] sampleFiles sampleLists sampleEngine
         (allSourcesRun\<lparr>uuid := None, dat := None\<rparr>)
       = Inl (ReferenceError ''parseOptions is not defined'')
   \<and> script dropEmptyLines sampleNet [0] sampleFiles sampleLists sampleEngine
         (allSourcesRun\<lparr>uuid := None, dat := None, http := None\<rparr>)
       = Inl (ReferenceError ''parseOptions is not defined'')
   \<and> script dropEmptyLines sampleNet [0] sampleFiles sampleLists sampleEngine
         (allSourcesRun\<lparr>uuid := None, dat := None, http := None, filter_flag := None\<rparr>)
       = Inl (ReferenceError ''parseOptions is not defined'')
   \<and> sourcePromise dropEmptyLines sampleNet [0] sampleFiles sampleLists
         (noFlags\<lparr>stats := True\<rparr>)
       = Resolved (Engine [''||a.example^''])"
proof -
  have g: "(truthy (host allSourcesRun)
              \<and> (truthy (location allSourcesRun) \<or> truthy (list_flag allSourcesRun)))
           \<or> stats allSourcesRun"
    by (simp add: allSourcesRun_def noFlags_def)
  have 1: "script dropEmptyLines sampleNet [0] sampleFiles sampleLists sampleEngine allSourcesRun
             = Inl (ReferenceError ''parseOptions is not defined'')"
    using source_promise_by_precedence [where c = allSourcesRun and eng = sampleEngine, OF g]
    by (simp add: allSourcesRun_def noFlags_def)
  have d: "makeAdBlockClientFromDATFile sampleFiles ''in.dat''
             = Resolved (Client [] (Some ''snapshot''))"
    by (simp add: makeAdBlockClientFromDATFile_def readFileSync_def sampleFiles_def Engine_def)
  have 2: "sourcePromise dropEmptyLines sampleNet [0] sampleFiles sampleLists
             (allSourcesRun\<lparr>uuid := None\<rparr>)
           = Resolved (Client [] (Some ''snapshot''))"
    using source_promise_by_precedence [where c = "allSourcesRun\<lparr>uuid := None\<rparr>"
        and fs = sampleFiles and sanitize = dropEmptyLines and net = sampleNet
        and order = "[0]" and lists_fn = sampleLists] g d
    by (simp add: allSourcesRun_def noFlags_def)
  have 3: "script dropEmptyLines sampleNet [0] sampleFiles sampleLists sampleEngine
             (allSourcesRun\<lparr>uuid := None, dat := None\<rparr>)
           = Inl (ReferenceError ''parseOptions is not defined'')"
    using source_promise_by_precedence [where c = "allSourcesRun\<lparr>uuid := None, dat := None\<rparr>"
        and eng = sampleEngine] g
    by (simp add: allSourcesRun_def noFlags_def)
  have 4: "script dropEmptyLines sampleNet [0] sampleFiles sampleLists sampleEngine
             (allSourcesRun\<lparr>uuid := None, dat := None, http := None\<rparr>)
           = Inl (ReferenceError ''parseOptions is not defined'')"
    using source_promise_by_precedence
      [where c = "allSourcesRun\<lparr>uuid := None, dat := None, http := None\<rparr>"
        and eng = sampleEngine] g
    by (simp add: allSourcesRun_def noFlags_def)
  have 5: "script dropEmptyLines sampleNet [0] sampleFiles sampleLists sampleEngine
             (allSourcesRun\<lparr>uuid := None, dat := None, http := None, filter_flag := None\<rparr>)
           = Inl (ReferenceError ''parseOptions is not defined'')"
    using source_promise_by_precedence
      [where c = "allSourcesRun\<lparr>uuid := None, dat := None, http := None, filter_flag := None\<rparr>"
        and eng = sampleEngine] g
    by (simp add: allSourcesRun_def noFlags_def)
  have n: "makeAdBlockClientFromListURL dropEmptyLines sampleNet [0]
             (Many (map list_url (sampleLists ''default''))) None
           = Resolved (Engine [''||a.example^''])"
    by (simp add: makeAdBlockClientFromListURL_def getSingleListDataFromSingleURL_def
        promiseAll_def sampleLists_def sampleNet_def dropEmptyLines_def NL_def
        makeAdBlockClientFromString_def)
  have 6: "sourcePromise dropEmptyLines sampleNet [0] sampleFiles sampleLists
             (noFlags\<lparr>stats := True\<rparr>)
           = Resolved (Engine [''||a.example^''])"
    using source_promise_by_precedence [where c = "noFlags\<lparr>stats := True\<rparr>"
        and sanitize = dropEmptyLines and net = sampleNet and order = "[0]" and fs = sampleFiles
        and lists_fn = sampleLists] n
    by (simp add: noFlags_def)
  from 1 2 3 4 5 6 show ?thesis by simp
qed

section \<open>The queries\<close>

lemma batch_fold:
  "matchCount (foldl (batchStep eng cl c) t sites) + skipCount (foldl (batchStep eng cl c) t sites)
     = matchCount t + skipCount t + length sites
   \<and> trace (foldl (batchStep eng cl c) t sites)
     = trace t @ map (\<lambda>site. CheckCall site (filterOption c) (the (host c))) sites"
proof (induction sites arbitrary: t)
  case Nil
  show ?case by simp
next
  case (Cons site sites)
  have "matchCount (batchStep eng cl c t site) + skipCount (batchStep eng cl c t site)
          = Suc (matchCount t + skipCount t)"
    by (simp add: batchStep_def Let_def)
  moreover have "trace (batchStep eng cl c t site)
          = trace t @ [CheckCall site (filterOption c) (the (host c))]"
    by (simp add: batchStep_def Let_def)
  ultimately show ?case
    using Cons.IH [of "batchStep eng cl c t site"] by simp
qed

lemma batchLoop_trace:
  "trace (batchLoop eng cl c sites)
     = map (\<lambda>site. CheckCall site (filterOption c) (the (host c))) sites"
  using batch_fold [of eng cl c "\<lparr>matchCount = 0, skipCount = 0, trace = []\<rparr>" sites]
  by (simp add: batchLoop_def)

lemma split_snoc_sep: "split sep (body @ [sep]) = split sep body @ [[]]"
proof (induction body)
  case Nil
  show ?case by simp
next
  case (Cons ch body)
  obtain l ls where "split sep body = l # ls"
    using split_not_Nil [of sep body] by (cases "split sep body") auto
  with Cons show ?case by simp
qed

lemma split_terminated_lines:
  "\<forall>l \<in> set ls. sep \<notin> set l \<Longrightarrow>
   split sep (concat (map (\<lambda>l. l @ [sep]) ls)) = ls @ [[]]"
  by (induction ls) (simp_all add: split_line_sep)

lemma batch_fold_counts:
  "matchCount (foldl (batchStep eng cl c) t sites)
     = matchCount t
       + length (filter (\<lambda>site. check eng cl site (filterOption c) (the (host c))) sites)
   \<and> skipCount (foldl (batchStep eng cl c) t sites)
     = skipCount t
       + length (filter (\<lambda>site. \<not> check eng cl site (filterOption c) (the (host c))) sites)"
proof (induction sites arbitrary: t)
  case Nil
  show ?case by simp
next
  case (Cons site sites)
  show ?case
    using Cons.IH [of "batchStep eng cl c t site"]
    by (simp add: batchStep_def Let_def)
qed

lemma batchLoop_matchCount:
  "matchCount (batchLoop eng cl c sites)
     = length (filter (\<lambda>site. check eng cl site (filterOption c) (the (host c))) sites)"
  using batch_fold_counts [of eng cl c "\<lparr>matchCount = 0, skipCount = 0, trace = []\<rparr>" sites]
  by (simp add: batchLoop_def)

lemma batchLoop_skipCount:
  "skipCount (batchLoop eng cl c sites)
     = length (filter (\<lambda>site. \<not> check eng cl site (filterOption c) (the (host c))) sites)"
  using batch_fold_counts [of eng cl c "\<lparr>matchCount = 0, skipCount = 0, trace = []\<rparr>" sites]
  by (simp add: batchLoop_def)

lemma batchQuery_readable:
  assumes "fs (the (list_flag c)) = Some content"
  shows "batchQuery eng fs cl c
     = Inr (map (\<lambda>site. CheckCall site (filterOption c) (the (host c))) (split NL content)
            @ [ConsoleLog [''Matching:'', showNat (matchCount (batchLoop eng cl c (split NL content)))],
               ConsoleLog [''Skipped:'', showNat (skipCount (batchLoop eng cl c (split NL content)))]])"
  using assms
  by (simp add: batchQuery_def readSiteList_def readFileSync_def Let_def batchLoop_trace)

text \<open>
  C4. The batch run over \<open>sites.txt\<close> with host \<open>www.cnet.com\<close> and the default
  resource type: every line is passed to \<open>check\<close> followed by the resource type and then
  the bare host. The single query on the same target passes the origin
  \<open>https://www.cnet.com\<close> second and the resource type third.
\<close>

theorem batch_check_call_arguments:
  "resultHandler sampleEngine sampleFiles batchRun (Engine [''https://a.example/x.js''])
     = [CheckCall ''https://a.example/x.js'' ''image'' ''www.cnet.com'',
        CheckCall ''https://n.example/y.js'' ''image'' ''www.cnet.com'',
        CheckCall [] ''image'' ''www.cnet.com'',
        ConsoleLog [''Matching:'', ''1''],
        ConsoleLog [''Skipped:'', ''2''],
        WriteFileSync ''out.dat'' ''https://a.example/x.js'']
   \<and> singleQuery sampleEngine (Engine [''https://a.example/x.js''])
        (batchRun\<lparr>location := Some ''https://a.example/x.js''\<rparr>)
     = [ConsoleLog [''params:'', ''https://a.example/x.js'', ''image'', ''www.cnet.com''],
        CheckCall ''https://a.example/x.js'' ''https://www.cnet.com'' ''image'',
        ConsoleLog [''Matches: '', ''true'']]"
proof -
  let ?cl = "Engine [''https://a.example/x.js'']"
  have r: "readSiteList sampleFiles ''sites.txt''
             = Inr [''https://a.example/x.js'', ''https://n.example/y.js'', []]"
    by (simp add: readSiteList_def readFileSync_def sampleFiles_def NL_def)
  have l: "batchLoop sampleEngine ?cl batchRun
             [''https://a.example/x.js'', ''https://n.example/y.js'', []]
           = \<lparr>matchCount = 1, skipCount = 2,
              trace = [CheckCall ''https://a.example/x.js'' ''image'' ''www.cnet.com'',
                       CheckCall ''https://n.example/y.js'' ''image'' ''www.cnet.com'',
                       CheckCall [] ''image'' ''www.cnet.com'']\<rparr>"
    by (simp add: batchLoop_def batchStep_def Let_def batchRun_def noFlags_def
        sampleEngine_def Engine_def)
  have n: "showNat 1 = ''1''" "showNat (Suc 0) = ''1''" "showNat 2 = ''2''"
    by code_simp+
  have f: "list_flag batchRun = Some ''sites.txt''" "\<not> stats batchRun"
      "\<not> truthy (location batchRun)" "output batchRun = Some ''out.dat''"
    by (simp_all add: batchRun_def noFlags_def)
  have q: "batchQuery sampleEngine sampleFiles ?cl batchRun
             = Inr [CheckCall ''https://a.example/x.js'' ''image'' ''www.cnet.com'',
                    CheckCall ''https://n.example/y.js'' ''image'' ''www.cnet.com'',
                    CheckCall [] ''image'' ''www.cnet.com'',
                    ConsoleLog [''Matching:'', ''1''],
                    ConsoleLog [''Skipped:'', ''2'']]"
    by (simp add: batchQuery_def f r l n)
  have "serialize sampleEngine ?cl = ''https://a.example/x.js''"
    by (simp add: sampleEngine_def Engine_def)
  then have "resultHandler sampleEngine sampleFiles batchRun ?cl
     = [CheckCall ''https://a.example/x.js'' ''image'' ''www.cnet.com'',
        CheckCall ''https://n.example/y.js'' ''image'' ''www.cnet.com'',
        CheckCall [] ''image'' ''www.cnet.com'',
        ConsoleLog [''Matching:'', ''1''],
        ConsoleLog [''Skipped:'', ''2''],
        WriteFileSync ''out.dat'' ''https://a.example/x.js'']"
    by (simp add: resultHandler_def f q)
  moreover have "singleQuery sampleEngine ?cl
        (batchRun\<lparr>location := Some ''https://a.example/x.js''\<rparr>)
     = [ConsoleLog [''params:'', ''https://a.example/x.js'', ''image'', ''www.cnet.com''],
        CheckCall ''https://a.example/x.js'' ''https://www.cnet.com'' ''image'',
        ConsoleLog [''Matches: '', ''true'']]"
    by (simp add: singleQuery_def batchRun_def noFlags_def sampleEngine_def Engine_def)
  ultimately show ?thesis by simp
qed

text \<open>
  C10. Batch mode reads the file named by the list flag and splits its content on
  newline, nothing filtered out; it runs one query for each segment, in order, and prints
  the two counts. \<open>matchCount + skipCount\<close> is the number of segments, one more than
  the number of newlines. For a file ending in a newline the last segment, and so the
  last query, is the empty string, and for a file of \<open>N\<close> non-empty lines, each ended by
  a newline, the sum is \<open>N + 1\<close>.
\<close>

theorem batch_mode_queries_every_segment:
  assumes "fs (the (list_flag c)) = Some content"
  shows "\<exists>sites m s.
           sites = split NL content
         \<and> m = length (filter (\<lambda>site. check eng cl site (filterOption c) (the (host c))) sites)
         \<and> s = length (filter (\<lambda>site. \<not> check eng cl site (filterOption c) (the (host c))) sites)
         \<and> readSiteList fs (the (list_flag c)) = Inr sites
         \<and> matchCount (batchLoop eng cl c sites) = m
         \<and> skipCount (batchLoop eng cl c sites) = s
         \<and> batchQuery eng fs cl c
             = Inr (map (\<lambda>site. CheckCall site (filterOption c) (the (host c))) sites
                    @ [ConsoleLog [''Matching:'', showNat m], ConsoleLog [''Skipped:'', showNat s]])
         \<and> (\<not> stats c \<and> \<not> truthy (location c) \<longrightarrow>
               resultHandler eng fs c cl
                 = map (\<lambda>site. CheckCall site (filterOption c) (the (host c))) sites
                   @ [ConsoleLog [''Matching:'', showNat m], ConsoleLog [''Skipped:'', showNat s]]
                   @ (if truthy (output c)
                      then [WriteFileSync (the (output c)) (serialize eng cl)] else []))
         \<and> m + s = length sites
         \<and> length sites = Suc (length (filter (\<lambda>ch. ch = NL) content))
         \<and> (\<forall>body. content = body @ [NL] \<longrightarrow> sites = split NL body @ [[]])
         \<and> (\<forall>ls. (\<forall>l \<in> set ls. l \<noteq> [] \<and> NL \<notin> set l)
                   \<and> content = concat (map (\<lambda>l. l @ [NL]) ls) \<longrightarrow>
                sites = ls @ [[]] \<and> m + s = length ls + 1)"
proof -
  let ?sites = "split NL content"
  let ?P = "\<lambda>site. check eng cl site (filterOption c) (the (host c))"
  let ?m = "length (filter ?P ?sites)"
  let ?s = "length (filter (\<lambda>site. \<not> ?P site) ?sites)"
  have r: "readSiteList fs (the (list_flag c)) = Inr ?sites"
    using assms by (simp add: readSiteList_def readFileSync_def)
  have q: "batchQuery eng fs cl c
             = Inr (map (\<lambda>site. CheckCall site (filterOption c) (the (host c))) ?sites
                    @ [ConsoleLog [''Matching:'', showNat ?m], ConsoleLog [''Skipped:'', showNat ?s]])"
    using batchQuery_readable [where fs = fs and c = c and eng = eng and cl = cl, OF assms]
    by (simp add: batchLoop_matchCount batchLoop_skipCount)
  have h: "\<not> stats c \<and> \<not> truthy (location c) \<longrightarrow>
               resultHandler eng fs c cl
                 = map (\<lambda>site. CheckCall site (filterOption c) (the (host c))) ?sites
                   @ [ConsoleLog [''Matching:'', showNat ?m], ConsoleLog [''Skipped:'', showNat ?s]]
                   @ (if truthy (output c)
                      then [WriteFileSync (the (output c)) (serialize eng cl)] else [])"
    by (simp add: resultHandler_def q)
  have sum: "?m + ?s = length ?sites"
    by (rule sum_length_filter_compl)
  have t: "\<forall>body. content = body @ [NL] \<longrightarrow> ?sites = split NL body @ [[]]"
    by (simp add: split_snoc_sep)
  have n: "\<forall>ls. (\<forall>l \<in> set ls. l \<noteq> [] \<and> NL \<notin> set l)
                   \<and> content = concat (map (\<lambda>l. l @ [NL]) ls) \<longrightarrow>
                ?sites = ls @ [[]] \<and> ?m + ?s = length ls + 1"
  proof (intro allI impI)
    fix ls
    assume a: "(\<forall>l \<in> set ls. l \<noteq> [] \<and> NL \<notin> set l)
                   \<and> content = concat (map (\<lambda>l. l @ [NL]) ls)"
    then have "?sites = ls @ [[]]"
      by (simp add: split_terminated_lines)
    with sum show "?sites = ls @ [[]] \<and> ?m + ?s = length ls + 1" by simp
  qed
  have mc: "matchCount (batchLoop eng cl c ?sites) = ?m"
    by (rule batchLoop_matchCount)
  have sc: "skipCount (batchLoop eng cl c ?sites) = ?s"
    by (rule batchLoop_skipCount)
  have len: "length ?sites = Suc (length (filter (\<lambda>ch. ch = NL) content))"
    by (rule length_split)
  show ?thesis
    by (rule exI [of _ ?sites], rule exI [of _ ?m], rule exI [of _ ?s])
       (intro conjI refl r mc sc q h sum len t n)
qed

theorem batch_mode_queries_every_segment_witness:
  "sampleFiles (the (list_flag batchRun))
     = Some (''https://a.example/x.js'' @ [NL] @ ''https://n.example/y.js'' @ [NL])
   \<and> readSiteList sampleFiles (the (list_flag batchRun))
       = Inr [''https://a.example/x.js'', ''https://n.example/y.js'', []]
   \<and> batchQuery sampleEngine sampleFiles (Engine [''https://a.example/x.js'']) batchRun
       = Inr [CheckCall ''https://a.example/x.js'' ''image'' ''www.cnet.com'',
              CheckCall ''https://n.example/y.js'' ''image'' ''www.cnet.com'',
              CheckCall [] ''image'' ''www.cnet.com'',
              ConsoleLog [''Matching:'', ''1''],
              ConsoleLog [''Skipped:'', ''2'']]"
proof -
  let ?content = "''https://a.example/x.js'' @ [NL] @ ''https://n.example/y.js'' @ [NL]"
  let ?cl = "Engine [''https://a.example/x.js'']"
  have f: "sampleFiles (the (list_flag batchRun)) = Some ?content"
    by (simp add: sampleFiles_def batchRun_def noFlags_def)
  have sp: "split NL ?content = [''https://a.example/x.js'', ''https://n.example/y.js'', []]"
    by (simp add: NL_def)
  have fo: "filterOption batchRun = ''image''" "the (host batchRun) = ''www.cnet.com''"
    by (simp_all add: batchRun_def noFlags_def)
  have ck: "check sampleEngine ?cl = (\<lambda>target origin hint. target = ''https://a.example/x.js'')"
    by (simp add: sampleEngine_def Engine_def)
  have n: "showNat (Suc 0) = ''1''" "showNat (Suc (Suc 0)) = ''2''"
    by code_simp+
  obtain sites m s where
      1: "sites = split NL ?content"
    and 2: "m = length (filter (\<lambda>site. check sampleEngine ?cl site (filterOption batchRun)
                                     (the (host batchRun))) sites)"
    and 3: "s = length (filter (\<lambda>site. \<not> check sampleEngine ?cl site (filterOption batchRun)
                                     (the (host batchRun))) sites)"
    and 4: "readSiteList sampleFiles (the (list_flag batchRun)) = Inr sites"
    and 5: "batchQuery sampleEngine sampleFiles ?cl batchRun
             = Inr (map (\<lambda>site. CheckCall site (filterOption batchRun) (the (host batchRun))) sites
                    @ [ConsoleLog [''Matching:'', showNat m], ConsoleLog [''Skipped:'', showNat s]])"
    using batch_mode_queries_every_segment [where fs = sampleFiles and c = batchRun
        and eng = sampleEngine and cl = ?cl, OF f]
    by blast
  from 1 sp have sites: "sites = [''https://a.example/x.js'', ''https://n.example/y.js'', []]"
    by simp
  from 2 sites ck have m: "m = Suc 0" by simp
  from 3 sites ck have s: "s = Suc (Suc 0)" by simp
  from 4 5 sites m s n fo f show ?thesis by simp
qed

section \<open>Writing the snapshot\<close>

text \<open>
  C6, as the claim states it, fails: with the stats flag, an output path and a client
  built from \<open>in.dat\<close>, the script prints the parsing stats and ends; nothing is written.
\<close>

theorem output_not_written_with_stats:
  "sourcePromise dropEmptyLines sampleNet [] sampleFiles sampleLists statsRun
     = Resolved (Client [] (Some ''snapshot''))
   \<and> output statsRun = Some ''out.dat''
   \<and> script dropEmptyLines sampleNet [] sampleFiles sampleLists sampleEngine statsRun
     = Inr [ConsoleLog [''Parsing stats:'', ''0'']]"
proof -
  have f: "stats statsRun" "output statsRun = Some ''out.dat''"
    by (simp_all add: statsRun_def noFlags_def)
  have s: "selectSource statsRun = Some (SnapshotFile ''in.dat'')"
    by (simp add: selectSource_def statsRun_def noFlags_def)
  have p: "sourcePromise dropEmptyLines sampleNet [] sampleFiles sampleLists statsRun
             = Resolved (Client [] (Some ''snapshot''))"
    by (simp add: sourcePromise_def s makeAdBlockClientFromDATFile_def readFileSync_def
        sampleFiles_def Engine_def)
  have n: "showNat 0 = ''0''" by code_simp
  have "getParsingStats sampleEngine (Client [] (Some ''snapshot'')) = ''0''"
    by (simp add: sampleEngine_def n)
  then have "script dropEmptyLines sampleNet [] sampleFiles sampleLists sampleEngine statsRun
     = Inr [ConsoleLog [''Parsing stats:'', ''0'']]"
    by (simp add: script_def p resultHandler_def f)
  with p f show ?thesis by simp
qed

text \<open>
  C6, amended. With an output path requested and a client built: after a single query,
  and after a batch query whose site list could be read, the last thing the script does
  is to write the serialized client to the output path; with the stats flag it prints
  the parsing stats and nothing else.
\<close>

theorem output_written_after_queries:
  assumes "sourcePromise sanitize net order fs lists_fn c = Resolved cl"
      and "truthy (output c)"
  shows "(\<not> stats c \<and> (truthy (location c) \<or> fs (the (list_flag c)) \<noteq> None) \<longrightarrow>
            (\<exists>queried. script sanitize net order fs lists_fn eng c
               = Inr (queried @ [WriteFileSync (the (output c)) (serialize eng cl)])))
       \<and> (stats c \<longrightarrow>
            script sanitize net order fs lists_fn eng c
              = Inr [ConsoleLog [''Parsing stats:'', getParsingStats eng cl]])"
proof -
  have "script sanitize net order fs lists_fn eng c = Inr (resultHandler eng fs c cl)"
    using assms(1) by (simp add: script_def)
  moreover have "stats c \<Longrightarrow>
      resultHandler eng fs c cl = [ConsoleLog [''Parsing stats:'', getParsingStats eng cl]]"
    by (simp add: resultHandler_def)
  moreover have "\<not> stats c \<Longrightarrow> truthy (location c) \<Longrightarrow>
      resultHandler eng fs c cl
        = singleQuery eng cl c @ [WriteFileSync (the (output c)) (serialize eng cl)]"
    using assms(2) by (simp add: resultHandler_def)
  moreover have "\<not> stats c \<Longrightarrow> \<not> truthy (location c) \<Longrightarrow> fs (the (list_flag c)) \<noteq> None \<Longrightarrow>
      \<exists>queried. resultHandler eng fs c cl
        = queried @ [WriteFileSync (the (output c)) (serialize eng cl)]"
    using assms(2)
    by (auto simp: resultHandler_def batchQuery_def readSiteList_def readFileSync_def Let_def)
  ultimately show ?thesis by (cases "truthy (location c)") auto
qed

theorem output_written_after_queries_witness:
  "sourcePromise dropEmptyLines sampleNet [] sampleFiles sampleLists batchRun
     = Resolved (Client [] (Some ''snapshot''))
   \<and> truthy (output batchRun)
   \<and> \<not> stats batchRun
   \<and> sampleFiles (the (list_flag batchRun)) \<noteq> None
   \<and> (\<exists>queried. script dropEmptyLines sampleNet [] sampleFiles sampleLists sampleEngine batchRun
         = Inr (queried @ [WriteFileSync ''out.dat'' []]))
   \<and> sourcePromise dropEmptyLines sampleNet [] sampleFiles sampleLists statsRun
     = Resolved (Client [] (Some ''snapshot''))
   \<and> truthy (output statsRun)
   \<and> stats statsRun
   \<and> script dropEmptyLines sampleNet [] sampleFiles sampleLists sampleEngine statsRun
     = Inr [ConsoleLog [''Parsing stats:'', ''0'']]"
proof -
  have f: "\<not> stats batchRun" "output batchRun = Some ''out.dat''"
      "list_flag batchRun = Some ''sites.txt''"
    by (simp_all add: batchRun_def noFlags_def)
  have g: "stats statsRun" "output statsRun = Some ''out.dat''"
    by (simp_all add: statsRun_def noFlags_def)
  have s: "selectSource batchRun = Some (SnapshotFile ''in.dat'')"
    by (simp add: selectSource_def batchRun_def noFlags_def)
  have p: "sourcePromise dropEmptyLines sampleNet [] sampleFiles sampleLists batchRun
             = Resolved (Client [] (Some ''snapshot''))"
    by (simp add: sourcePromise_def s makeAdBlockClientFromDATFile_def readFileSync_def
        sampleFiles_def Engine_def)
  have s': "selectSource statsRun = Some (SnapshotFile ''in.dat'')"
    by (simp add: selectSource_def statsRun_def noFlags_def)
  have p': "sourcePromise dropEmptyLines sampleNet [] sampleFiles sampleLists statsRun
             = Resolved (Client [] (Some ''snapshot''))"
    by (simp add: sourcePromise_def s' makeAdBlockClientFromDATFile_def readFileSync_def
        sampleFiles_def Engine_def)
  have r: "sampleFiles ''sites.txt'' \<noteq> None"
    by (simp add: sampleFiles_def)
  have z: "serialize sampleEngine (Client [] (Some ''snapshot'')) = []"
    by (simp add: sampleEngine_def)
  have n: "showNat 0 = ''0''" by code_simp
  have y: "getParsingStats sampleEngine (Client [] (Some ''snapshot'')) = ''0''"
    by (simp add: sampleEngine_def n)
  have t: "truthy (output batchRun)" "truthy (output statsRun)"
    using f g by simp_all
  from output_written_after_queries [where eng = sampleEngine, OF p t(1)] f r z
  have 1: "\<exists>queried. script dropEmptyLines sampleNet [] sampleFiles sampleLists sampleEngine batchRun
         = Inr (queried @ [WriteFileSync ''out.dat'' []])"
    by simp
  from output_written_after_queries [where eng = sampleEngine, OF p' t(2)] g y
  have 2: "script dropEmptyLines sampleNet [] sampleFiles sampleLists sampleEngine statsRun
     = Inr [ConsoleLog [''Parsing stats:'', ''0'']]"
    by simp
  from 1 2 p p' t f g r show ?thesis by simp
qed

end
